theory Spec2Isabelle
  imports Main
begin

section \<open>Python values that travel as JSON\<close>

text \<open>
  The gateway passes around the Python objects that \<open>json.dumps\<close> accepts and
  \<open>json.loads\<close> returns: \<open>None\<close>, booleans, integers, strings, lists and
  dictionaries with string keys. A dictionary keeps its insertion order, so it is an
  association list. Strings are lists of 8-bit characters (code points 0 to 255);
  floating-point numbers are not represented.
\<close>

datatype json =
    JNull
  | JBool bool
  | JInt int
  | JStr string
  | JArr "json list"
  | JObj "(string \<times> json) list"

type_synonym pydict = "(string \<times> json) list"

text \<open>\<open>d[k] = v\<close>: an existing key keeps its position, a new key goes last.\<close>

fun dict_set :: "pydict \<Rightarrow> string \<Rightarrow> json \<Rightarrow> pydict" where
  "dict_set [] k v = [(k, v)]"
| "dict_set (p # ps) k v = (if fst p = k then (k, v) # ps else p # dict_set ps k v)"

definition dict_get :: "pydict \<Rightarrow> string \<Rightarrow> json option" where
  "dict_get d k = map_of d k"


text \<open>\<open>dict(pairs)\<close>: later pairs overwrite earlier ones with the same key.\<close>

definition dict_of_pairs :: "(string \<times> json) list \<Rightarrow> pydict" where
  "dict_of_pairs ps = foldl (\<lambda>d (k, v). dict_set d k v) [] ps"


section \<open>\<open>json.dumps\<close>\<close>

text \<open>
  The standard serializer with its default settings: separators \<open>", "\<close> and
  \<open>": "\<close>, \<open>ensure_ascii\<close> on. Integers print in decimal.
\<close>

definition digit_char :: "nat \<Rightarrow> char" where
  "digit_char d = char_of (48 + d)"

fun show_nat :: "nat \<Rightarrow> string" where
  "show_nat n = (if n < 10 then [digit_char n] else show_nat (n div 10) @ [digit_char (n mod 10)])"

declare show_nat.simps [simp del]

definition show_int :: "int \<Rightarrow> string" where
  "show_int i = (if i < 0 then CHR ''-'' # show_nat (nat (- i)) else show_nat (nat i))"

definition hex_char :: "nat \<Rightarrow> char" where
  "hex_char d = (if d < 10 then char_of (48 + d) else char_of (87 + d))"

text \<open>
  \<open>py_encode_basestring_ascii\<close>: the quote, the backslash and five control characters
  have two-character escapes, printable ASCII is copied, and every other character becomes
  \<open>\uXXXX\<close> with lowercase hexadecimal digits.
\<close>

definition esc_char :: "char \<Rightarrow> string" where
  "esc_char c =
     (if c = CHR 0x22 then [CHR 0x5C, CHR 0x22]
      else if c = CHR 0x5C then [CHR 0x5C, CHR 0x5C]
      else if c = CHR 0x0A then [CHR 0x5C, CHR ''n'']
      else if c = CHR 0x0D then [CHR 0x5C, CHR ''r'']
      else if c = CHR 0x09 then [CHR 0x5C, CHR ''t'']
      else if c = CHR 0x08 then [CHR 0x5C, CHR ''b'']
      else if c = CHR 0x0C then [CHR 0x5C, CHR ''f'']
      else if 32 \<le> (of_char c :: nat) \<and> (of_char c :: nat) \<le> 126 then [c]
      else [CHR 0x5C, CHR ''u'', CHR ''0'', CHR ''0'',
            hex_char ((of_char c :: nat) div 16), hex_char ((of_char c :: nat) mod 16)])"

definition dumps_str :: "string \<Rightarrow> string" where
  "dumps_str s = CHR 0x22 # concat (map esc_char s) @ [CHR 0x22]"

fun join :: "string \<Rightarrow> string list \<Rightarrow> string" where
  "join sep [] = []"
| "join sep [x] = x"
| "join sep (x # y # ys) = x @ sep @ join sep (y # ys)"

fun json_dumps :: "json \<Rightarrow> string" where
  "json_dumps JNull = ''null''"
| "json_dumps (JBool b) = (if b then ''true'' else ''false'')"
| "json_dumps (JInt i) = show_int i"
| "json_dumps (JStr s) = dumps_str s"
| "json_dumps (JArr xs) = ''['' @ join '', '' (map json_dumps xs) @ '']''"
| "json_dumps (JObj kvs) =
     ''{'' @ join '', '' (map (\<lambda>kv. dumps_str (fst kv) @ '': '' @ json_dumps (snd kv)) kvs) @ ''}''"

section \<open>\<open>json.loads\<close>\<close>

text \<open>
  The standard decoder, a recursive descent over the text: \<open>scanstring\<close> reads a
  string literal after its opening quote, \<open>scan_number\<close> the integer literals,
  \<open>scan_once\<close> one value, \<open>json_array\<close> and \<open>json_object\<close> the loops of
  \<open>JSONArray\<close> and \<open>JSONObject\<close>. Every function returns the value read and the
  text left, or \<open>None\<close> where the decoder raises \<open>JSONDecodeError\<close>.
  Outside the model, and answered \<open>None\<close> too: a number literal with a fraction or an
  exponent, \<open>NaN\<close> and \<open>Infinity\<close> (Python floats), and a \<open>\uXXXX\<close> escape
  above code point 255.
\<close>

definition is_ws :: "char \<Rightarrow> bool" where
  "is_ws c \<longleftrightarrow> c = CHR 0x20 \<or> c = CHR 0x09 \<or> c = CHR 0x0A \<or> c = CHR 0x0D"

definition skip_ws :: "string \<Rightarrow> string" where
  "skip_ws s = dropWhile is_ws s"

definition is_digit :: "char \<Rightarrow> bool" where
  "is_digit c \<longleftrightarrow> 48 \<le> (of_char c :: nat) \<and> (of_char c :: nat) \<le> 57"

definition digit_val :: "char \<Rightarrow> nat" where
  "digit_val c = of_char c - 48"

definition digits_val :: "string \<Rightarrow> nat" where
  "digits_val ds = foldl (\<lambda>acc c. 10 * acc + digit_val c) 0 ds"

definition hex_val :: "char \<Rightarrow> nat option" where
  "hex_val c =
     (let n = (of_char c :: nat) in
      if 48 \<le> n \<and> n \<le> 57 then Some (n - 48)
      else if 97 \<le> n \<and> n \<le> 102 then Some (n - 87)
      else if 65 \<le> n \<and> n \<le> 70 then Some (n - 55)
      else None)"

definition hex4 :: "char \<Rightarrow> char \<Rightarrow> char \<Rightarrow> char \<Rightarrow> nat option" where
  "hex4 a b c d =
     (case (hex_val a, hex_val b, hex_val c, hex_val d) of
        (Some x, Some y, Some z, Some w) \<Rightarrow> Some (((x * 16 + y) * 16 + z) * 16 + w)
      | _ \<Rightarrow> None)"

definition unescape :: "char \<Rightarrow> char option" where
  "unescape e =
     (if e = CHR 0x22 then Some (CHR 0x22)
      else if e = CHR 0x5C then Some (CHR 0x5C)
      else if e = CHR ''/'' then Some (CHR ''/'')
      else if e = CHR ''b'' then Some (CHR 0x08)
      else if e = CHR ''f'' then Some (CHR 0x0C)
      else if e = CHR ''n'' then Some (CHR 0x0A)
      else if e = CHR ''r'' then Some (CHR 0x0D)
      else if e = CHR ''t'' then Some (CHR 0x09)
      else None)"

fun scanstring :: "string \<Rightarrow> (string \<times> string) option" where
  "scanstring [] = None"
| "scanstring (c # cs) =
     (if c = CHR 0x22 then Some ([], cs)
      else if c = CHR 0x5C then
        (case cs of
           [] \<Rightarrow> None
         | e # r \<Rightarrow>
             if e = CHR ''u'' then
               (case r of
                  h1 # h2 # h3 # h4 # r' \<Rightarrow>
                    (case hex4 h1 h2 h3 h4 of
                       None \<Rightarrow> None
                     | Some n \<Rightarrow>
                         if n < 256 then
                           (case scanstring r' of
                              None \<Rightarrow> None
                            | Some (t, r'') \<Rightarrow> Some (char_of n # t, r''))
                         else None)
                | _ \<Rightarrow> None)
             else
               (case unescape e of
                  None \<Rightarrow> None
                | Some x \<Rightarrow>
                    (case scanstring r of
                       None \<Rightarrow> None
                     | Some (t, r'') \<Rightarrow> Some (x # t, r''))))
      else if (of_char c :: nat) < 32 then None
      else
        (case scanstring cs of
           None \<Rightarrow> None
         | Some (t, r) \<Rightarrow> Some (c # t, r)))"

definition is_float_tail :: "string \<Rightarrow> bool" where
  "is_float_tail r =
     (case r of
        [] \<Rightarrow> False
      | c # r1 \<Rightarrow>
          if c = CHR ''.'' then (case r1 of [] \<Rightarrow> False | d # _ \<Rightarrow> is_digit d)
          else if c = CHR ''e'' \<or> c = CHR ''E'' then
            (case r1 of
               [] \<Rightarrow> False
             | d # r2 \<Rightarrow>
                 if d = CHR ''+'' \<or> d = CHR ''-'' then (case r2 of [] \<Rightarrow> False | d' # _ \<Rightarrow> is_digit d')
                 else is_digit d)
          else False)"

text \<open>The literal \<open>-?(0|[1-9][0-9]*)\<close>, refused when a fraction or an exponent follows.\<close>

definition scan_digits :: "string \<Rightarrow> (nat \<times> string) option" where
  "scan_digits s =
     (case s of
        [] \<Rightarrow> None
      | d # ds \<Rightarrow>
          if \<not> is_digit d then None
          else if d = CHR ''0'' then Some (0, ds)
          else Some (digits_val (takeWhile is_digit s), dropWhile is_digit s))"

definition scan_number :: "string \<Rightarrow> (json \<times> string) option" where
  "scan_number s =
     (case s of
        [] \<Rightarrow> None
      | c # cs \<Rightarrow>
          (case scan_digits (if c = CHR ''-'' then cs else s) of
             None \<Rightarrow> None
           | Some (n, r) \<Rightarrow>
               if is_float_tail r then None
               else Some (JInt (if c = CHR ''-'' then - int n else int n), r)))"

fun scan_once :: "nat \<Rightarrow> string \<Rightarrow> (json \<times> string) option"
and json_array :: "nat \<Rightarrow> string \<Rightarrow> (json list \<times> string) option"
and json_object :: "nat \<Rightarrow> string \<Rightarrow> ((string \<times> json) list \<times> string) option"
where
  "scan_once 0 s = None"
| "scan_once (Suc n) s =
     (case s of
        [] \<Rightarrow> None
      | c # cs \<Rightarrow>
          if c = CHR 0x22 then
            (case scanstring cs of None \<Rightarrow> None | Some (t, r) \<Rightarrow> Some (JStr t, r))
          else if c = CHR ''{'' then
            (case skip_ws cs of
               [] \<Rightarrow> None
             | d # r \<Rightarrow>
                 if d = CHR ''}'' then Some (JObj [], r)
                 else if d = CHR 0x22 then
                   (case json_object n r of
                      None \<Rightarrow> None
                    | Some (ps, r') \<Rightarrow> Some (JObj (dict_of_pairs ps), r'))
                 else None)
          else if c = CHR ''['' then
            (case skip_ws cs of
               [] \<Rightarrow> None
             | d # r \<Rightarrow>
                 if d = CHR '']'' then Some (JArr [], r)
                 else
                   (case json_array n (d # r) of
                      None \<Rightarrow> None
                    | Some (vs, r') \<Rightarrow> Some (JArr vs, r')))
          else if take 4 s = ''null'' then Some (JNull, drop 4 s)
          else if take 4 s = ''true'' then Some (JBool True, drop 4 s)
          else if take 5 s = ''false'' then Some (JBool False, drop 5 s)
          else scan_number s)"
| "json_array 0 s = None"
| "json_array (Suc n) s =
     (case scan_once n s of
        None \<Rightarrow> None
      | Some (v, r) \<Rightarrow>
          (case skip_ws r of
             [] \<Rightarrow> None
           | c # r' \<Rightarrow>
               if c = CHR '']'' then Some ([v], r')
               else if c = CHR '','' then
                 (case json_array n (skip_ws r') of
                    None \<Rightarrow> None
                  | Some (vs, r'') \<Rightarrow> Some (v # vs, r''))
               else None))"
| "json_object 0 s = None"
| "json_object (Suc n) s =
     (case scanstring s of
        None \<Rightarrow> None
      | Some (key, r) \<Rightarrow>
          (case skip_ws r of
             [] \<Rightarrow> None
           | c # r1 \<Rightarrow>
               if c \<noteq> CHR '':'' then None
               else
                 (case scan_once n (skip_ws r1) of
                    None \<Rightarrow> None
                  | Some (v, r2) \<Rightarrow>
                      (case skip_ws r2 of
                         [] \<Rightarrow> None
                       | d # r3 \<Rightarrow>
                           if d = CHR ''}'' then Some ([(key, v)], r3)
                           else if d = CHR '','' then
                             (case skip_ws r3 of
                                [] \<Rightarrow> None
                              | q # r4 \<Rightarrow>
                                  if q \<noteq> CHR 0x22 then None
                                  else
                                    (case json_object n r4 of
                                       None \<Rightarrow> None
                                     | Some (ps, r5) \<Rightarrow> Some ((key, v) # ps, r5)))
                           else None))))"

text \<open>
  \<open>json.loads\<close>: leading whitespace, one value, trailing whitespace, end of text.
  The fuel bounds the nesting depth; the length of the text is enough of it, and more
  changes nothing (\<open>json_loads_fuel\<close> below).
\<close>

definition json_loads :: "string \<Rightarrow> json option" where
  "json_loads s =
     (case scan_once (Suc (length s)) (skip_ws s) of
        None \<Rightarrow> None
      | Some (v, r) \<Rightarrow> if skip_ws r = [] then Some v else None)"

section \<open>Auxiliary notions for the round trip\<close>


definition delim :: "string \<Rightarrow> bool" where
  "delim r \<longleftrightarrow> (case r of [] \<Rightarrow> True | c # _ \<Rightarrow> c = CHR '','' \<or> c = CHR '']'' \<or> c = CHR ''}'')"


text \<open>The text of one object member after the opening quote of its key, and of a
  non-empty member list after the opening quote of its first key.\<close>

definition member_body :: "string \<times> json \<Rightarrow> string" where
  "member_body kv = concat (map esc_char (fst kv)) @ CHR 0x22 # '': '' @ json_dumps (snd kv)"


section \<open>Exceptions, truthiness, formatting\<close>

text \<open>
  The exceptions that the modelled paths raise. \<open>TypeError\<close> carries its message;
  \<open>UnboundLocalError\<close> the name of the local variable read before its first assignment.
\<close>

datatype exn =
    TypeError string
  | UnboundLocalError string
  | JSONDecodeError string

text \<open>\<open>str(e)\<close>\<close>

fun exn_str :: "exn \<Rightarrow> string" where
  "exn_str (TypeError m) = m"
| "exn_str (UnboundLocalError v) =
     ''cannot access local variable '' @ [CHR 0x27] @ v @ [CHR 0x27]
       @ '' where it is not associated with a value''"
| "exn_str (JSONDecodeError m) = m"

text \<open>
  A function that assigns to a name anywhere in its body owns that name as a local
  variable from its first line on. Reading the variable before the first assignment
  raises; \<open>None\<close> stands for the unassigned variable.
\<close>

definition load_local :: "string \<Rightarrow> 'a option \<Rightarrow> exn + 'a" where
  "load_local name slot = (case slot of None \<Rightarrow> Inl (UnboundLocalError name) | Some v \<Rightarrow> Inr v)"

text \<open>Truthiness of a dictionary or \<open>None\<close> (\<open>if params:\<close>), and \<open>x or y\<close> on such values.\<close>

definition truthy_dict :: "pydict option \<Rightarrow> bool" where
  "truthy_dict x = (case x of None \<Rightarrow> False | Some d \<Rightarrow> d \<noteq> [])"

definition py_or :: "pydict option \<Rightarrow> pydict option \<Rightarrow> pydict option" where
  "py_or a b = (if truthy_dict a then a else b)"

text \<open>
  \<open>str.lower\<close> on code points 0 to 255: the ASCII capitals and the Latin-1 capitals
  (\<open>0xC0\<close> to \<open>0xDE\<close> without the multiplication sign \<open>0xD7\<close>) move up by 32.
\<close>

definition lower_char :: "char \<Rightarrow> char" where
  "lower_char c =
     (let n = (of_char c :: nat) in
      if (65 \<le> n \<and> n \<le> 90) \<or> (192 \<le> n \<and> n \<le> 222 \<and> n \<noteq> 215) then char_of (n + 32) else c)"

definition py_lower :: "string \<Rightarrow> string" where
  "py_lower s = map lower_char s"

definition bool_param :: "bool \<Rightarrow> string" where
  "bool_param b = (if b then ''true'' else ''false'')"

section \<open>The request executor\<close>

definition USER_AGENT :: string where
  "USER_AGENT = ''Mozilla/5.0 (Windows NT 10.0; Win64; x64) AppleWebKit/537.36 (KHTML, like Gecko) Chrome/91.0.4472.124 Safari/537.36''"

text \<open>
  \<open>request_args\<close> is the keyword dictionary handed to the HTTP client. A key of that
  dictionary is \<open>Absent\<close> or \<open>Present\<close> with its value, and the value of \<open>params\<close> and
  \<open>json\<close> is a dictionary or \<open>None\<close>. The timeout is the constant 30 seconds.
\<close>

datatype 'a slot = Absent | Present 'a

record request_args =
  ra_headers :: pydict
  ra_timeout :: nat
  ra_params :: "pydict option slot"
  ra_json :: "pydict option slot"


text \<open>
  What \<open>getattr(client, method_lower)(url, **request_args)\<close> comes back with: a response
  (status code and body text), or an exception with its \<open>str\<close>. One network call is the
  triple of client method, URL and keyword dictionary.
\<close>

datatype outcome = Response nat string | Failure string

type_synonym net_call = "string \<times> string \<times> request_args"

record endpoint_row =
  row_path :: string
  row_method :: string
  row_description :: string
  row_request_body :: string
  row_responses :: string

text \<open>
  The surroundings of the process: the two names imported from the configuration module
  (\<open>host\<close>, and \<open>xcred\<close> under the name \<open>api_key\<close>), the environment variables,
  the upstream behind the HTTP client, the \<open>str\<close> of the decoder's exception for a text,
  and the rows of table \<open>api_endpoints\<close> in the catalog database.
\<close>

record env =
  host :: string
  xcred :: string
  getenv :: "string \<Rightarrow> string option"
  send :: "string \<Rightarrow> string \<Rightarrow> request_args \<Rightarrow> outcome"
  decode_error :: "string \<Rightarrow> string"
  api_endpoints :: "endpoint_row list"

definition no_body_methods :: "string list" where
  "no_body_methods = [''get'', ''delete'', ''head'', ''options'']"

definition build_request_args ::
  "string \<Rightarrow> pydict \<Rightarrow> pydict option \<Rightarrow> pydict option \<Rightarrow> request_args" where
  "build_request_args method_lower headers data params =
     (let request_args = \<lparr>ra_headers = headers, ra_timeout = 30, ra_params = Absent, ra_json = Absent\<rparr>
      in if method_lower \<in> set no_body_methods
         then request_args\<lparr>ra_params := Present (py_or data params)\<rparr>
         else (let request_args = request_args\<lparr>ra_json := Present data\<rparr>
               in if truthy_dict params then request_args\<lparr>ra_params := Present params\<rparr>
                  else request_args))"

text \<open>\<open>raise_for_status\<close> lets exactly the statuses 200 to 299 pass.\<close>

definition is_success :: "nat \<Rightarrow> bool" where
  "is_success status \<longleftrightarrow> 200 \<le> status \<and> status \<le> 299"

definition make_request ::
  "env \<Rightarrow> string \<Rightarrow> string \<Rightarrow> pydict option \<Rightarrow> pydict option \<Rightarrow> pydict option
     \<Rightarrow> json \<times> net_call list" where
  "make_request e url meth headers data params =
     (let headers = dict_set (case py_or headers (Some []) of Some h \<Rightarrow> h | None \<Rightarrow> [])
                      ''User-Agent'' (JStr USER_AGENT);
          method_lower = py_lower meth;
          request_args = build_request_args method_lower headers data params;
          result =
            (case send e method_lower url request_args of
               Response status text \<Rightarrow>
                 if is_success status then
                   (case json_loads text of
                      Some v \<Rightarrow> v
                    | None \<Rightarrow>
                        JObj [(''error'', JStr ''Request failed''),
                              (''details'', JStr (decode_error e text))])
                 else
                   JObj [(''error'', JStr ''HTTP error''),
                         (''status'', JInt (int status)),
                         (''details'', JStr text)]
             | Failure msg \<Rightarrow>
                 JObj [(''error'', JStr ''Request failed''), (''details'', JStr msg)])
      in (result, [(method_lower, url, request_args)]))"

text \<open>
  A call of \<open>make_request\<close> by keyword. Binding fails with \<open>TypeError\<close> on the first
  keyword that the signature does not have, before the body runs.
\<close>

definition make_request_signature :: "string list" where
  "make_request_signature = [''url'', ''method'', ''headers'', ''data'', ''params'']"

definition kw_dict :: "(string \<times> json) list \<Rightarrow> string \<Rightarrow> pydict option" where
  "kw_dict kwargs k = (case map_of kwargs k of Some (JObj d) \<Rightarrow> Some d | _ \<Rightarrow> None)"

definition unexpected_keyword :: "string \<Rightarrow> exn" where
  "unexpected_keyword k =
     TypeError (''make_request() got an unexpected keyword argument '' @ [CHR 0x27] @ k @ [CHR 0x27])"

definition call_make_request ::
  "env \<Rightarrow> (string \<times> json) list \<Rightarrow> exn + (json \<times> net_call list)" where
  "call_make_request e kwargs =
     (case filter (\<lambda>k. k \<notin> set make_request_signature) (map fst kwargs) of
        k # _ \<Rightarrow> Inl (unexpected_keyword k)
      | [] \<Rightarrow>
          (case (map_of kwargs ''url'', map_of kwargs ''method'') of
             (Some (JStr url), Some (JStr meth)) \<Rightarrow>
               Inr (make_request e url meth (kw_dict kwargs ''headers'')
                      (kw_dict kwargs ''data'') (kw_dict kwargs ''params''))
           | _ \<Rightarrow> Inl (TypeError ''make_request() missing a required positional argument'')))"

text \<open>
  The frame \<open>try: response = await make_request(...); return json.dumps(response)\<close>
  \<open>except Exception as e: return f"...{str(e)}"\<close> that closes most operations. The result
  of an operation is what it returns or raises, and the network calls it made.
\<close>

type_synonym op_result = "(exn + string) \<times> net_call list"

definition try_request :: "exn + (json \<times> net_call list) \<Rightarrow> string \<Rightarrow> op_result" where
  "try_request r prefix =
     (case r of
        Inl ex \<Rightarrow> (Inr (prefix @ exn_str ex), [])
      | Inr (response, calls) \<Rightarrow> (Inr (json_dumps response), calls))"

definition std_headers :: "string \<Rightarrow> pydict" where
  "std_headers key =
     [(''Authorization'', JStr (''Basic '' @ key)), (''Content-Type'', JStr ''application/json'')]"

section \<open>The operations\<close>

text \<open>
  Helpers for the two presence tests of the source: \<open>if x:\<close> (truthiness) and
  \<open>if x is not None:\<close>. Each runs the update \<open>f\<close> on the value or leaves the dictionary.
\<close>

definition when_truthy_str :: "string option \<Rightarrow> (string \<Rightarrow> pydict) \<Rightarrow> pydict \<Rightarrow> pydict" where
  "when_truthy_str x f d = (case x of Some s \<Rightarrow> if s \<noteq> [] then f s else d | None \<Rightarrow> d)"

definition when_truthy_int :: "int option \<Rightarrow> (int \<Rightarrow> pydict) \<Rightarrow> pydict \<Rightarrow> pydict" where
  "when_truthy_int x f d = (case x of Some i \<Rightarrow> if i \<noteq> 0 then f i else d | None \<Rightarrow> d)"

definition when_given :: "'a option \<Rightarrow> ('a \<Rightarrow> pydict) \<Rightarrow> pydict \<Rightarrow> pydict" where
  "when_given x f d = (case x of Some v \<Rightarrow> f v | None \<Rightarrow> d)"

definition opt_str :: "string option \<Rightarrow> json" where
  "opt_str x = (case x of None \<Rightarrow> JNull | Some s \<Rightarrow> JStr s)"

subsection \<open>\<open>run_api\<close>\<close>

definition run_api :: "env \<Rightarrow> string \<Rightarrow> string \<Rightarrow> op_result" where
  "run_api e query meth =
     (let host_l = ''pm.v.spaceagecu.org/api/v3'';
          api_url = ''https://'' @ host_l @ query
      in case load_local ''api_key'' (None :: string option) of
           Inl ex \<Rightarrow> (Inl ex, [])
         | Inr unassigned \<Rightarrow>
             (let api_key = ''Basic '' @ unassigned;
                  headers = [(''Authorization'', JStr api_key),
                             (''Content-Type'', JStr ''application/json''),
                             (''Connection'', JStr ''keep-alive'')];
                  (response, calls) = make_request e api_url meth (Some headers) None None
              in (Inr (json_dumps response), calls)))"

subsection \<open>Projects\<close>

definition create_project_payload ::
  "string \<Rightarrow> string option \<Rightarrow> string option \<Rightarrow> bool \<Rightarrow> string option \<Rightarrow> pydict" where
  "create_project_payload name descr identifier public status_explanation =
     (let payload = [(''name'', JStr name),
                     (''identifier'', opt_str identifier),
                     (''public'', JBool public),
                     (''active'', JBool True),
                     (''_type'', JStr ''Project'')];
          payload = when_truthy_str descr
                      (\<lambda>d. dict_set payload ''description''
                             (JObj [(''format'', JStr ''markdown''), (''raw'', JStr d)])) payload;
          payload = when_truthy_str status_explanation
                      (\<lambda>x. dict_set payload ''statusExplanation''
                             (JObj [(''format'', JStr ''markdown''), (''raw'', JStr x)])) payload
      in payload)"

definition create_project ::
  "env \<Rightarrow> string \<Rightarrow> string option \<Rightarrow> string option \<Rightarrow> bool \<Rightarrow> string option \<Rightarrow> op_result" where
  "create_project e name descr identifier public status_explanation =
     (let api_url = ''https://'' @ host e @ ''/api/v3/projects'';
          headers = std_headers (xcred e);
          payload = create_project_payload name descr identifier public status_explanation
      in try_request
           (call_make_request e
              [(''url'', JStr api_url), (''method'', JStr ''POST''),
               (''headers'', JObj headers), (''json'', JObj payload)])
           ''Error creating project: '')"

definition view_project :: "env \<Rightarrow> int \<Rightarrow> op_result" where
  "view_project e project_id =
     (let api_url = ''https://'' @ host e @ ''/api/v3/projects/'' @ show_int project_id;
          headers = std_headers (xcred e)
      in try_request
           (call_make_request e
              [(''url'', JStr api_url), (''method'', JStr ''GET''), (''headers'', JObj headers)])
           (''Error retrieving project '' @ show_int project_id @ '': ''))"

text \<open>\<open>list_projects\<close> hands back what \<open>make_request\<close> returned, not its serialization.\<close>

definition list_projects :: "env \<Rightarrow> (exn + json) \<times> net_call list" where
  "list_projects e =
     (let api_url = ''https://'' @ host e @ ''/api/v3/projects'';
          headers = std_headers (xcred e)
      in case call_make_request e
                [(''url'', JStr api_url), (''method'', JStr ''GET''), (''headers'', JObj headers)] of
           Inl ex \<Rightarrow> (Inl ex, [])
         | Inr (response, calls) \<Rightarrow> (Inr response, calls))"

definition update_project_payload ::
  "string option \<Rightarrow> string option \<Rightarrow> string option \<Rightarrow> bool option \<Rightarrow> bool option
     \<Rightarrow> string option \<Rightarrow> pydict" where
  "update_project_payload name descr identifier public active status_explanation =
     (let payload = [];
          payload = when_given name (\<lambda>x. dict_set payload ''name'' (JStr x)) payload;
          payload = when_given identifier (\<lambda>x. dict_set payload ''identifier'' (JStr x)) payload;
          payload = when_given public (\<lambda>x. dict_set payload ''public'' (JBool x)) payload;
          payload = when_given active (\<lambda>x. dict_set payload ''active'' (JBool x)) payload;
          payload = when_given descr
                      (\<lambda>x. dict_set payload ''description'' (JObj [(''raw'', JStr x)])) payload;
          payload = when_given status_explanation
                      (\<lambda>x. dict_set payload ''statusExplanation'' (JObj [(''raw'', JStr x)])) payload
      in payload)"

definition update_project ::
  "env \<Rightarrow> int \<Rightarrow> string option \<Rightarrow> string option \<Rightarrow> string option \<Rightarrow> bool option \<Rightarrow> bool option
     \<Rightarrow> string option \<Rightarrow> op_result" where
  "update_project e project_id name descr identifier public active status_explanation =
     (let api_url = ''https://'' @ host e @ ''/api/v3/projects/'' @ show_int project_id;
          headers = std_headers (xcred e);
          payload = update_project_payload name descr identifier public active status_explanation
      in if payload = [] then
           (Inr ''No update fields provided. Please specify at least one field to change.'', [])
         else
           try_request
             (call_make_request e
                [(''url'', JStr api_url), (''method'', JStr ''PATCH''),
                 (''headers'', JObj headers), (''json'', JObj payload)])
             (''Error updating project '' @ show_int project_id @ '': ''))"

subsection \<open>Work packages\<close>

definition get_project_work_packages_params ::
  "int option \<Rightarrow> int option \<Rightarrow> json option \<Rightarrow> json option \<Rightarrow> string option \<Rightarrow> bool option
     \<Rightarrow> string list option \<Rightarrow> pydict" where
  "get_project_work_packages_params offset page_size filters sort_by group_by show_sums select =
     (let params = [];
          params = when_given offset (\<lambda>x. dict_set params ''offset'' (JInt x)) params;
          params = when_given page_size (\<lambda>x. dict_set params ''pageSize'' (JInt x)) params;
          params = when_given filters (\<lambda>x. dict_set params ''filters'' (JStr (json_dumps x))) params;
          params = when_given sort_by (\<lambda>x. dict_set params ''sortBy'' (JStr (json_dumps x))) params;
          params = when_given group_by (\<lambda>x. dict_set params ''groupBy'' (JStr x)) params;
          params = when_given show_sums
                     (\<lambda>x. dict_set params ''showSums'' (JStr (bool_param x))) params;
          params = when_given select (\<lambda>x. dict_set params ''select'' (JStr (join '','' x))) params
      in params)"

definition get_project_work_packages ::
  "env \<Rightarrow> int \<Rightarrow> int option \<Rightarrow> int option \<Rightarrow> json option \<Rightarrow> json option \<Rightarrow> string option
     \<Rightarrow> bool option \<Rightarrow> string list option \<Rightarrow> op_result" where
  "get_project_work_packages e project_id offset page_size filters sort_by group_by show_sums select =
     (let api_url = ''https://'' @ host e @ ''/api/v3/projects/'' @ show_int project_id
                      @ ''/work_packages'';
          headers = std_headers (xcred e);
          params = get_project_work_packages_params offset page_size filters sort_by group_by
                     show_sums select
      in try_request
           (call_make_request e
              [(''url'', JStr api_url), (''method'', JStr ''GET''),
               (''headers'', JObj headers), (''params'', JObj params)])
           (''Error retrieving work packages for project '' @ show_int project_id @ '': ''))"

definition link :: "string \<Rightarrow> int \<Rightarrow> json" where
  "link prefix i = JObj [(''href'', JStr (prefix @ show_int i))]"

definition create_work_package_payload ::
  "string \<Rightarrow> string option \<Rightarrow> int option \<Rightarrow> int option \<Rightarrow> int option \<Rightarrow> int option
     \<Rightarrow> string option \<Rightarrow> string option \<Rightarrow> string option \<Rightarrow> pydict" where
  "create_work_package_payload subject descr type_id priority_id status_id assignee_id
       start_date due_date estimated_time =
     (let payload = [(''subject'', JStr subject)];
          payload = when_truthy_str descr
                      (\<lambda>x. dict_set payload ''description'' (JObj [(''raw'', JStr x)])) payload;
          payload = when_truthy_str start_date (\<lambda>x. dict_set payload ''startDate'' (JStr x)) payload;
          payload = when_truthy_str due_date (\<lambda>x. dict_set payload ''dueDate'' (JStr x)) payload;
          payload = when_truthy_str estimated_time
                      (\<lambda>x. dict_set payload ''estimatedTime'' (JStr x)) payload;
          links = [];
          links = when_truthy_int type_id
                    (\<lambda>x. dict_set links ''type'' (link ''/api/v3/types/'' x)) links;
          links = when_truthy_int priority_id
                    (\<lambda>x. dict_set links ''priority'' (link ''/api/v3/priorities/'' x)) links;
          links = when_truthy_int status_id
                    (\<lambda>x. dict_set links ''status'' (link ''/api/v3/statuses/'' x)) links;
          links = when_truthy_int assignee_id
                    (\<lambda>x. dict_set links ''assignee'' (link ''/api/v3/users/'' x)) links
      in if links \<noteq> [] then dict_set payload ''_links'' (JObj links) else payload)"

definition create_work_package ::
  "env \<Rightarrow> int \<Rightarrow> string \<Rightarrow> string option \<Rightarrow> int option \<Rightarrow> int option \<Rightarrow> int option \<Rightarrow> int option
     \<Rightarrow> string option \<Rightarrow> string option \<Rightarrow> string option \<Rightarrow> bool \<Rightarrow> op_result" where
  "create_work_package e project_id subject descr type_id priority_id status_id assignee_id
       start_date due_date estimated_time notify =
     (let api_url = ''https://'' @ host e @ ''/api/v3/projects/'' @ show_int project_id
                      @ ''/work_packages'';
          headers = std_headers (xcred e);
          params = [(''notify'', JStr (bool_param notify))];
          payload = create_work_package_payload subject descr type_id priority_id status_id
                      assignee_id start_date due_date estimated_time
      in try_request
           (call_make_request e
              [(''url'', JStr api_url), (''method'', JStr ''POST''), (''headers'', JObj headers),
               (''params'', JObj params), (''json'', JObj payload)])
           (''Error creating work package in project '' @ show_int project_id @ '': ''))"


definition default_status_filter :: json where
  "default_status_filter =
     JObj [(''status_id'', JObj [(''operator'', JStr ''o''), (''values'', JNull)])]"




definition update_work_package_payload ::
  "int \<Rightarrow> string option \<Rightarrow> string option \<Rightarrow> int option \<Rightarrow> int option \<Rightarrow> int option \<Rightarrow> int option
     \<Rightarrow> int option \<Rightarrow> string option \<Rightarrow> string option \<Rightarrow> string option \<Rightarrow> pydict" where
  "update_work_package_payload lock_version subject descr percentage_done type_id priority_id
       status_id assignee_id start_date due_date estimated_time =
     (let payload = [(''lockVersion'', JInt lock_version)];
          payload = when_given subject (\<lambda>x. dict_set payload ''subject'' (JStr x)) payload;
          payload = when_given percentage_done
                      (\<lambda>x. dict_set payload ''percentageDone'' (JInt x)) payload;
          payload = when_given start_date (\<lambda>x. dict_set payload ''startDate'' (JStr x)) payload;
          payload = when_given due_date (\<lambda>x. dict_set payload ''dueDate'' (JStr x)) payload;
          payload = when_given estimated_time
                      (\<lambda>x. dict_set payload ''estimatedTime'' (JStr x)) payload;
          payload = when_given descr
                      (\<lambda>x. dict_set payload ''description'' (JObj [(''raw'', JStr x)])) payload;
          links = [];
          links = when_given type_id
                    (\<lambda>x. dict_set links ''type'' (link ''/api/v3/types/'' x)) links;
          links = when_given priority_id
                    (\<lambda>x. dict_set links ''priority'' (link ''/api/v3/priorities/'' x)) links;
          links = when_given status_id
                    (\<lambda>x. dict_set links ''status'' (link ''/api/v3/statuses/'' x)) links;
          links = when_given assignee_id
                    (\<lambda>x. dict_set links ''assignee'' (link ''/api/v3/users/'' x)) links
      in if links \<noteq> [] then dict_set payload ''_links'' (JObj links) else payload)"

definition update_work_package ::
  "env \<Rightarrow> int \<Rightarrow> int \<Rightarrow> string option \<Rightarrow> string option \<Rightarrow> int option \<Rightarrow> int option \<Rightarrow> int option
     \<Rightarrow> int option \<Rightarrow> int option \<Rightarrow> string option \<Rightarrow> string option \<Rightarrow> string option \<Rightarrow> bool
     \<Rightarrow> op_result" where
  "update_work_package e work_package_id lock_version subject descr percentage_done type_id
       priority_id status_id assignee_id start_date due_date estimated_time notify =
     (let api_url = ''https://'' @ host e @ ''/api/v3/work_packages/'' @ show_int work_package_id;
          headers = std_headers (xcred e);
          params = [(''notify'', JStr (bool_param notify))];
          payload = update_work_package_payload lock_version subject descr percentage_done type_id
                      priority_id status_id assignee_id start_date due_date estimated_time
      in try_request
           (call_make_request e
              [(''url'', JStr api_url), (''method'', JStr ''PATCH''), (''headers'', JObj headers),
               (''params'', JObj params), (''json'', JObj payload)])
           (''Error updating work package '' @ show_int work_package_id @ '': ''))"

definition comment_work_package :: "env \<Rightarrow> int \<Rightarrow> string \<Rightarrow> bool \<Rightarrow> op_result" where
  "comment_work_package e work_package_id comment_text notify =
     (let api_url = ''https://'' @ host e @ ''/api/v3/work_packages/'' @ show_int work_package_id
                      @ ''/activities'';
          headers = std_headers (xcred e);
          params = [(''notify'', JStr (bool_param notify))];
          payload = [(''_type'', JStr ''Comment''), (''comment'', JObj [(''raw'', JStr comment_text)])]
      in try_request
           (call_make_request e
              [(''url'', JStr api_url), (''method'', JStr ''POST''), (''headers'', JObj headers),
               (''params'', JObj params), (''json'', JObj payload)])
           (''Error commenting on work package '' @ show_int work_package_id @ '': ''))"

definition add_work_package_watcher :: "env \<Rightarrow> int \<Rightarrow> int \<Rightarrow> op_result" where
  "add_work_package_watcher e work_package_id user_id =
     (let api_url = ''https://'' @ host e @ ''/api/v3/work_packages/'' @ show_int work_package_id
                      @ ''/watchers'';
          headers = std_headers (xcred e);
          payload = [(''_links'', JObj [(''user'', link ''/api/v3/users/'' user_id)])]
      in try_request
           (call_make_request e
              [(''url'', JStr api_url), (''method'', JStr ''POST''),
               (''headers'', JObj headers), (''json'', JObj payload)])
           (''Error adding watcher to work package '' @ show_int work_package_id @ '': ''))"

subsection \<open>Activities and custom actions\<close>

text \<open>
  These operations begin with
  \<open>host = os.getenv("OPENPROJECT_HOST", "pm.v.spaceagecu.org")\<close> and
  \<open>api_key = os.getenv("OPENPROJECT_API_KEY", api_key)\<close>. The second line assigns
  \<open>api_key\<close>, so the name is local to the function, and its right-hand side reads it
  while it is still unassigned.
\<close>

definition getenv_default :: "env \<Rightarrow> string \<Rightarrow> string \<Rightarrow> string" where
  "getenv_default e name dflt = (case getenv e name of Some v \<Rightarrow> v | None \<Rightarrow> dflt)"

definition view_activity :: "env \<Rightarrow> int \<Rightarrow> op_result" where
  "view_activity e activity_id =
     (let host_l = getenv_default e ''OPENPROJECT_HOST'' ''pm.v.spaceagecu.org''
      in case load_local ''api_key'' (None :: string option) of
           Inl ex \<Rightarrow> (Inl ex, [])
         | Inr unassigned \<Rightarrow>
             (let api_key = getenv_default e ''OPENPROJECT_API_KEY'' unassigned;
                  api_url = ''https://'' @ host_l @ ''/api/v3/activities/'' @ show_int activity_id;
                  headers = std_headers api_key
              in try_request
                   (call_make_request e
                      [(''url'', JStr api_url), (''method'', JStr ''GET''),
                       (''headers'', JObj headers)])
                   (''Error retrieving activity '' @ show_int activity_id @ '': '')))"

definition update_activity :: "env \<Rightarrow> int \<Rightarrow> string \<Rightarrow> op_result" where
  "update_activity e activity_id new_comment_text =
     (let host_l = getenv_default e ''OPENPROJECT_HOST'' ''pm.v.spaceagecu.org''
      in case load_local ''api_key'' (None :: string option) of
           Inl ex \<Rightarrow> (Inl ex, [])
         | Inr unassigned \<Rightarrow>
             (let api_key = getenv_default e ''OPENPROJECT_API_KEY'' unassigned;
                  api_url = ''https://'' @ host_l @ ''/api/v3/activities/'' @ show_int activity_id;
                  headers = std_headers api_key;
                  payload = [(''comment'', JObj [(''raw'', JStr new_comment_text)])]
              in try_request
                   (call_make_request e
                      [(''url'', JStr api_url), (''method'', JStr ''PATCH''),
                       (''headers'', JObj headers), (''json'', JObj payload)])
                   (''Error updating activity '' @ show_int activity_id @ '': '')))"

definition execute_custom_action_payload :: "int \<Rightarrow> int \<Rightarrow> pydict" where
  "execute_custom_action_payload work_package_id lock_version =
     [(''_links'', JObj [(''workPackage'', link ''/api/v3/work_packages/'' work_package_id)]),
      (''lockVersion'', JInt lock_version)]"

definition execute_custom_action :: "env \<Rightarrow> int \<Rightarrow> int \<Rightarrow> int \<Rightarrow> op_result" where
  "execute_custom_action e custom_action_id work_package_id lock_version =
     (let host_l = getenv_default e ''OPENPROJECT_HOST'' ''pm.v.spaceagecu.org''
      in case load_local ''api_key'' (None :: string option) of
           Inl ex \<Rightarrow> (Inl ex, [])
         | Inr unassigned \<Rightarrow>
             (let api_key = getenv_default e ''OPENPROJECT_API_KEY'' unassigned;
                  api_url = ''https://'' @ host_l @ ''/api/v3/custom_actions/''
                              @ show_int custom_action_id @ ''/execute'';
                  headers = std_headers api_key;
                  payload = execute_custom_action_payload work_package_id lock_version
              in try_request
                   (call_make_request e
                      [(''url'', JStr api_url), (''method'', JStr ''POST''),
                       (''headers'', JObj headers), (''json'', JObj payload)])
                   (''Error executing custom action '' @ show_int custom_action_id
                      @ '' on work package '' @ show_int work_package_id @ '': '')))"

section \<open>The endpoint catalog\<close>















section \<open>Sample surroundings\<close>

text \<open>
  An upstream that answers every request with 204 and an empty body, one that answers
  404 with a body, one that cannot be reached, and a catalog of two rows.
\<close>

definition sample_rows :: "endpoint_row list" where
  "sample_rows =
     [\<lparr>row_path = ''/api/v3/projects'', row_method = ''GET'', row_description = ''List projects'',
       row_request_body = ''None'', row_responses = ''{}''\<rparr>,
      \<lparr>row_path = ''/api/v3/work_packages/{id}'', row_method = ''PATCH'', row_description = ''Update'',
       row_request_body = ''{}'', row_responses = ''[200, 409]''\<rparr>]"

definition sample_env :: "(string \<Rightarrow> string \<Rightarrow> request_args \<Rightarrow> outcome) \<Rightarrow> env" where
  "sample_env upstream =
     \<lparr>host = ''pm.example.org'', xcred = ''a2V5'', getenv = (\<lambda>_. None), send = upstream,
      decode_error = (\<lambda>_. ''Expecting value: line 1 column 1 (char 0)''),
      api_endpoints = sample_rows\<rparr>"

definition env_204 :: env where
  "env_204 = sample_env (\<lambda>_ _ _. Response 204 [])"

definition env_404 :: env where
  "env_404 = sample_env (\<lambda>_ _ _. Response 404 ''Not Found'')"

definition env_down :: env where
  "env_down = sample_env (\<lambda>_ _ _. Failure ''All connection attempts failed'')"

definition env_ok :: env where
  "env_ok = sample_env (\<lambda>_ _ _. Response 200 ''{}'')"

definition sample_filter :: json where
  "sample_filter =
     JArr [JObj [(''project'', JObj [(''operator'', JStr ''=''), (''values'', JArr [JStr ''5''])])]]"

section \<open>Notions used in the statements\<close>

text \<open>What the upstream answered to the one call that \<open>make_request\<close> made.\<close>

definition upstream_outcome ::
  "env \<Rightarrow> string \<Rightarrow> string \<Rightarrow> pydict option \<Rightarrow> pydict option \<Rightarrow> pydict option \<Rightarrow> outcome" where
  "upstream_outcome e url meth headers data params =
     (case snd (make_request e url meth headers data params) of
        (m, u, a) # _ \<Rightarrow> send e m u a
      | [] \<Rightarrow> Failure [])"

text \<open>The \<open>str\<close> of the exception that binding the keyword \<open>json\<close> raises.\<close>

definition json_keyword_error :: string where
  "json_keyword_error = exn_str (unexpected_keyword ''json'')"




section \<open>The serializer and the decoder are inverse\<close>






lemma char_of_eq_iff: "n < 256 \<Longrightarrow> (char_of (n::nat) = c) = (n = of_char c)"
  by (metis char_of_char of_char_of mod_less)














lemma delim_skip_ws: "delim r \<Longrightarrow> skip_ws r = r"
  by (auto simp: delim_def skip_ws_def is_ws_def split: list.splits)





















section \<open>The decoder's fuel\<close>

text \<open>
  A successful read consumes at least one character and needs no more fuel than the
  number of characters it consumes. So the answer of \<open>scan_once\<close> is the same for
  every amount of fuel from the length of the text on, and \<open>json_loads\<close> answers
  \<open>None\<close> only where the decoder finds no value or finds text after it.
\<close>

lemma scanstring_shorter: "scanstring s = Some (t, r) \<Longrightarrow> length r < length s"
proof (induction "length s" arbitrary: s t r rule: less_induct)
  case less
  obtain c cs where s: "s = c # cs" using less.prems by (cases s) auto
  have ih: "length r' < length s" if "scanstring s' = Some (t', r')" "length s' < length s"
    for s' t' r'
    using less.hyps [OF that(2) that(1)] that(2) by simp
  show ?case
    using less.prems unfolding s
    by (auto split: if_splits list.splits option.splits dest!: ih simp: s)
qed

lemma scan_digits_shorter: "scan_digits s = Some (n, r) \<Longrightarrow> length r < length s"
  by (cases s)
    (auto simp: scan_digits_def length_dropWhile_le less_Suc_eq_le split: if_splits)

lemma scan_number_shorter: "scan_number s = Some (v, r) \<Longrightarrow> length r < length s"
  by (cases s)
    (auto simp: scan_number_def split: option.splits if_splits dest!: scan_digits_shorter)

lemma length_skip_ws: "length (skip_ws s) \<le> length s"
  by (simp add: skip_ws_def length_dropWhile_le)

lemma json_array_SucE:
  assumes "json_array (Suc m) s = Some (vs, r)"
  obtains (last) v r1 where "scan_once m s = Some (v, r1)" "skip_ws r1 = CHR '']'' # r" "vs = [v]"
  | (more) v r1 r' vs' where "scan_once m s = Some (v, r1)" "skip_ws r1 = CHR '','' # r'"
      "json_array m (skip_ws r') = Some (vs', r)" "vs = v # vs'"
  using assms by (auto split: option.splits list.splits if_splits)

lemma json_array_last:
  "scan_once n s = Some (v, r1) \<Longrightarrow> skip_ws r1 = CHR '']'' # r \<Longrightarrow> json_array (Suc n) s = Some ([v], r)"
  by simp

lemma json_array_more:
  "scan_once n s = Some (v, r1) \<Longrightarrow> skip_ws r1 = CHR '','' # r' \<Longrightarrow>
   json_array n (skip_ws r') = Some (vs', r) \<Longrightarrow> json_array (Suc n) s = Some (v # vs', r)"
  by simp

lemma json_object_SucE:
  assumes "json_object (Suc m) s = Some (ps, r)"
  obtains (last) key r0 r1 v r2 where "scanstring s = Some (key, r0)" "skip_ws r0 = CHR '':'' # r1"
      "scan_once m (skip_ws r1) = Some (v, r2)" "skip_ws r2 = CHR ''}'' # r" "ps = [(key, v)]"
  | (more) key r0 r1 v r2 r3 r4 ps' where "scanstring s = Some (key, r0)"
      "skip_ws r0 = CHR '':'' # r1" "scan_once m (skip_ws r1) = Some (v, r2)"
      "skip_ws r2 = CHR '','' # r3" "skip_ws r3 = CHR 0x22 # r4"
      "json_object m r4 = Some (ps', r)" "ps = (key, v) # ps'"
  using assms by (auto split: option.splits list.splits if_splits)

lemma json_object_last:
  "scanstring s = Some (key, r0) \<Longrightarrow> skip_ws r0 = CHR '':'' # r1 \<Longrightarrow>
   scan_once n (skip_ws r1) = Some (v, r2) \<Longrightarrow> skip_ws r2 = CHR ''}'' # r \<Longrightarrow>
   json_object (Suc n) s = Some ([(key, v)], r)"
  by simp

lemma json_object_more:
  "scanstring s = Some (key, r0) \<Longrightarrow> skip_ws r0 = CHR '':'' # r1 \<Longrightarrow>
   scan_once n (skip_ws r1) = Some (v, r2) \<Longrightarrow> skip_ws r2 = CHR '','' # r3 \<Longrightarrow>
   skip_ws r3 = CHR 0x22 # r4 \<Longrightarrow> json_object n r4 = Some (ps', r) \<Longrightarrow>
   json_object (Suc n) s = Some ((key, v) # ps', r)"
  by simp

lemma scan_once_SucE:
  assumes "scan_once (Suc m) s = Some (v, r)"
  obtains (obj) cs r0 ps where "s = CHR ''{'' # cs" "skip_ws cs = CHR 0x22 # r0"
      "json_object m r0 = Some (ps, r)" "v = JObj (dict_of_pairs ps)"
  | (arr) cs d r0 vs where "s = CHR ''['' # cs" "skip_ws cs = d # r0" "d \<noteq> CHR '']''"
      "json_array m (d # r0) = Some (vs, r)" "v = JArr vs"
  | (flat) "length r < length s" "\<And>n. scan_once (Suc n) s = Some (v, r)"
proof (cases s)
  case Nil
  with assms show ?thesis by simp
next
  case (Cons c cs)
  consider (q) "c = CHR 0x22" | (o) "c = CHR ''{''" | (a) "c = CHR ''[''"
    | (x) "c \<noteq> CHR 0x22" "c \<noteq> CHR ''{''" "c \<noteq> CHR ''[''" by blast
  then show ?thesis
  proof cases
    case q
    then obtain t where t: "scanstring cs = Some (t, r)" "v = JStr t"
      using assms Cons by (auto split: option.splits)
    have "length r < length s" using scanstring_shorter [OF t(1)] Cons by simp
    moreover have "scan_once (Suc n) s = Some (v, r)" for n using t q Cons by simp
    ultimately show ?thesis by (rule flat)
  next
    case o
    then obtain d r0 where d: "skip_ws cs = d # r0"
      using assms Cons by (auto split: list.splits)
    show ?thesis
    proof (cases "d = CHR ''}''")
      case True
      then have e: "v = JObj []" "r = r0" using assms Cons o d by auto
      have "length r < length s" using length_skip_ws [of cs] d e Cons by simp
      moreover have "scan_once (Suc n) s = Some (v, r)" for n using e o d True Cons by simp
      ultimately show ?thesis by (rule flat)
    next
      case False
      then have dq: "d = CHR 0x22" using assms Cons o d by (auto split: if_splits)
      then obtain ps where "json_object m r0 = Some (ps, r)" "v = JObj (dict_of_pairs ps)"
        using assms Cons o d by (auto split: option.splits)
      then show ?thesis using obj [of cs r0 ps] Cons o d dq by simp
    qed
  next
    case a
    then obtain d r0 where d: "skip_ws cs = d # r0"
      using assms Cons by (auto split: list.splits)
    show ?thesis
    proof (cases "d = CHR '']''")
      case True
      then have e: "v = JArr []" "r = r0" using assms Cons a d by auto
      have "length r < length s" using length_skip_ws [of cs] d e Cons by simp
      moreover have "scan_once (Suc n) s = Some (v, r)" for n using e a d True Cons by simp
      ultimately show ?thesis by (rule flat)
    next
      case False
      then obtain vs where "json_array m (d # r0) = Some (vs, r)" "v = JArr vs"
        using assms Cons a d by (auto split: option.splits)
      then show ?thesis using arr [of cs d r0 vs] Cons a d False by simp
    qed
  next
    case x
    have eq: "scan_once (Suc k) s =
        (if take 4 s = ''null'' then Some (JNull, drop 4 s)
         else if take 4 s = ''true'' then Some (JBool True, drop 4 s)
         else if take 5 s = ''false'' then Some (JBool False, drop 5 s)
         else scan_number s)" for k
      using x Cons by simp
    have "length r < length s"
      using assms unfolding eq
      by (auto split: if_splits dest: scan_number_shorter simp: Cons)
    moreover have "scan_once (Suc n) s = Some (v, r)" for n
      using assms unfolding eq [of m] eq [of n] .
    ultimately show ?thesis by (rule flat)
  qed
qed

lemma scan_once_obj:
  "skip_ws cs = CHR 0x22 # r0 \<Longrightarrow> json_object n r0 = Some (ps, r) \<Longrightarrow>
   scan_once (Suc n) (CHR ''{'' # cs) = Some (JObj (dict_of_pairs ps), r)"
  by simp

lemma scan_once_arr:
  "skip_ws cs = d # r0 \<Longrightarrow> d \<noteq> CHR '']'' \<Longrightarrow> json_array n (d # r0) = Some (vs, r) \<Longrightarrow>
   scan_once (Suc n) (CHR ''['' # cs) = Some (JArr vs, r)"
  by simp

lemma skip_ws_Cons_length: "skip_ws s = c # r \<Longrightarrow> length r < length s"
  using length_skip_ws [of s] by simp

lemma fuel_enough:
  shows "scan_once m s = Some (v, r) \<Longrightarrow>
           length r < length s \<and> (\<forall>n. length s - length r \<le> n \<longrightarrow> scan_once n s = Some (v, r))"
    and "json_array m s = Some (vs, r) \<Longrightarrow>
           length r < length s \<and> (\<forall>n. length s - length r \<le> n \<longrightarrow> json_array n s = Some (vs, r))"
    and "json_object m s = Some (ps, r) \<Longrightarrow>
           length r < length s \<and> (\<forall>n. length s - length r \<le> n \<longrightarrow> json_object n s = Some (ps, r))"
proof (induction m arbitrary: s v r vs ps)
  case 0
  {
    case 1 then show ?case by simp
  next
    case 2 then show ?case by simp
  next
    case 3 then show ?case by simp
  }
next
  case (Suc m)
  {
    case 1
    from 1 show ?case
    proof (cases rule: scan_once_SucE)
      case (obj cs r0 ps')
      from Suc.IH(3) [OF obj(3)] have a: "length r < length r0"
        and b: "\<And>n. length r0 - length r \<le> n \<Longrightarrow> json_object n r0 = Some (ps', r)" by auto
      have l: "length r0 < length cs" using skip_ws_Cons_length [OF obj(2)] .
      have "scan_once n s = Some (v, r)" if "length s - length r \<le> n" for n
      proof -
        from that a l obj(1) obtain n' where n: "n = Suc n'" "length r0 - length r \<le> n'"
          by (cases n) auto
        show ?thesis using scan_once_obj [OF obj(2) b [OF n(2)]] obj(1,4) n(1) by simp
      qed
      then show ?thesis using a l obj(1) by simp
    next
      case (arr cs d r0 vs')
      from Suc.IH(2) [OF arr(4)] have a: "length r < length (d # r0)"
        and b: "\<And>n. length (d # r0) - length r \<le> n \<Longrightarrow> json_array n (d # r0) = Some (vs', r)"
        by auto
      have l: "length (d # r0) \<le> length cs" using length_skip_ws [of cs] arr(2) by simp
      have "scan_once n s = Some (v, r)" if "length s - length r \<le> n" for n
      proof -
        from that a l arr(1) obtain n' where n: "n = Suc n'" "length (d # r0) - length r \<le> n'"
          by (cases n) auto
        show ?thesis using scan_once_arr [OF arr(2,3) b [OF n(2)]] arr(1,5) n(1) by simp
      qed
      then show ?thesis using a l arr(1) by simp
    next
      case flat
      have "scan_once n s = Some (v, r)" if "length s - length r \<le> n" for n
      proof -
        from that flat(1) obtain n' where "n = Suc n'" by (cases n) auto
        then show ?thesis using flat(2) by simp
      qed
      then show ?thesis using flat(1) by simp
    qed
  next
    case 2
    from 2 show ?case
    proof (cases rule: json_array_SucE)
      case (last v' r1)
      from Suc.IH(1) [OF last(1)] have a: "length r1 < length s"
        and b: "\<And>n. length s - length r1 \<le> n \<Longrightarrow> scan_once n s = Some (v', r1)" by auto
      have l: "length r < length r1" using skip_ws_Cons_length [OF last(2)] .
      have "json_array n s = Some (vs, r)" if "length s - length r \<le> n" for n
      proof -
        from that a l obtain n' where n: "n = Suc n'" "length s - length r1 \<le> n'"
          by (cases n) auto
        show ?thesis using json_array_last [OF b [OF n(2)] last(2)] last(3) n(1) by simp
      qed
      then show ?thesis using a l by simp
    next
      case (more v' r1 r' vs')
      from Suc.IH(1) [OF more(1)] have a: "length r1 < length s"
        and b: "\<And>n. length s - length r1 \<le> n \<Longrightarrow> scan_once n s = Some (v', r1)" by auto
      from Suc.IH(2) [OF more(3)] have c: "length r < length (skip_ws r')"
        and d: "\<And>n. length (skip_ws r') - length r \<le> n \<Longrightarrow>
                   json_array n (skip_ws r') = Some (vs', r)" by auto
      have l: "length r' < length r1" using skip_ws_Cons_length [OF more(2)] .
      have k: "length (skip_ws r') \<le> length r'" by (rule length_skip_ws)
      have "json_array n s = Some (vs, r)" if "length s - length r \<le> n" for n
      proof -
        from that a c l k obtain n' where n: "n = Suc n'" "length s - length r1 \<le> n'"
          "length (skip_ws r') - length r \<le> n'"
          by (cases n) auto
        show ?thesis
          using json_array_more [OF b [OF n(2)] more(2) d [OF n(3)]] more(4) n(1) by simp
      qed
      then show ?thesis using a c l k by simp
    qed
  next
    case 3
    from 3 show ?case
    proof (cases rule: json_object_SucE)
      case (last key r0 r1 v' r2)
      from Suc.IH(1) [OF last(3)] have a: "length r2 < length (skip_ws r1)"
        and b: "\<And>n. length (skip_ws r1) - length r2 \<le> n \<Longrightarrow>
                  scan_once n (skip_ws r1) = Some (v', r2)" by auto
      have l0: "length r0 < length s" using scanstring_shorter [OF last(1)] .
      have l1: "length r1 < length r0" using skip_ws_Cons_length [OF last(2)] .
      have l2: "length (skip_ws r1) \<le> length r1" by (rule length_skip_ws)
      have l3: "length r < length r2" using skip_ws_Cons_length [OF last(4)] .
      have "json_object n s = Some (ps, r)" if "length s - length r \<le> n" for n
      proof -
        from that a l0 l1 l2 l3 obtain n' where n: "n = Suc n'"
          "length (skip_ws r1) - length r2 \<le> n'"
          by (cases n) auto
        show ?thesis
          using json_object_last [OF last(1,2) b [OF n(2)] last(4)] last(5) n(1) by simp
      qed
      then show ?thesis using a l0 l1 l2 l3 by simp
    next
      case (more key r0 r1 v' r2 r3 r4 ps')
      from Suc.IH(1) [OF more(3)] have a: "length r2 < length (skip_ws r1)"
        and b: "\<And>n. length (skip_ws r1) - length r2 \<le> n \<Longrightarrow>
                  scan_once n (skip_ws r1) = Some (v', r2)" by auto
      from Suc.IH(3) [OF more(6)] have c: "length r < length r4"
        and d: "\<And>n. length r4 - length r \<le> n \<Longrightarrow> json_object n r4 = Some (ps', r)" by auto
      have l0: "length r0 < length s" using scanstring_shorter [OF more(1)] .
      have l1: "length r1 < length r0" using skip_ws_Cons_length [OF more(2)] .
      have l2: "length (skip_ws r1) \<le> length r1" by (rule length_skip_ws)
      have l3: "length r3 < length r2" using skip_ws_Cons_length [OF more(4)] .
      have l4: "length r4 < length r3" using skip_ws_Cons_length [OF more(5)] .
      have "json_object n s = Some (ps, r)" if "length s - length r \<le> n" for n
      proof -
        from that a c l0 l1 l2 l3 l4 obtain n' where n: "n = Suc n'"
          "length (skip_ws r1) - length r2 \<le> n'" "length r4 - length r \<le> n'"
          by (cases n) auto
        show ?thesis
          using json_object_more [OF more(1,2) b [OF n(2)] more(4,5) d [OF n(3)]] more(7) n(1)
          by simp
      qed
      then show ?thesis using a c l0 l1 l2 l3 l4 by simp
    qed
  }
qed

lemma scan_once_fuel:
  assumes "length s \<le> n" "length s \<le> m"
  shows "scan_once n s = scan_once m s"
proof -
  have one: "scan_once k' s = scan_once k s" if "length s \<le> k'" "scan_once k s = Some x" for k k' x
  proof -
    obtain v r where x: "x = (v, r)" by (cases x)
    from fuel_enough(1) [of k s v r] that x have "scan_once k' s = Some (v, r)" by auto
    then show ?thesis using that x by simp
  qed
  show ?thesis
  proof (cases "scan_once n s")
    case None
    show ?thesis
    proof (cases "scan_once m s")
      case None': None
      with None show ?thesis by simp
    next
      case (Some x)
      from one [OF assms(1) Some] None Some show ?thesis by simp
    qed
  next
    case (Some x)
    from one [OF assms(2) Some] show ?thesis by simp
  qed
qed

lemma json_loads_fuel:
  assumes "length s \<le> n"
  shows "json_loads s =
     (case scan_once n (skip_ws s) of
        None \<Rightarrow> None
      | Some (v, r) \<Rightarrow> if skip_ws r = [] then Some v else None)"
proof -
  have "scan_once (Suc (length s)) (skip_ws s) = scan_once n (skip_ws s)"
    using assms length_skip_ws [of s] by (intro scan_once_fuel) auto
  then show ?thesis by (simp add: json_loads_def del: scan_once.simps)
qed

section \<open>Dictionary lookups\<close>

lemma dict_get_dict_set:
  "dict_get (dict_set d k v) k' = (if k' = k then Some v else dict_get d k')"
  by (induction d) (auto simp: dict_get_def)

lemma dict_get_when_given_other:
  "k' \<noteq> k \<Longrightarrow> dict_get (when_given x (\<lambda>v. dict_set d k (g v)) d) k' = dict_get d k'"
  by (simp add: when_given_def dict_get_dict_set split: option.split)

lemma dict_get_when_given_same:
  "dict_get (when_given x (\<lambda>v. dict_set d k (g v)) d) k =
     (case x of None \<Rightarrow> dict_get d k | Some v \<Rightarrow> Some (g v))"
  by (simp add: when_given_def dict_get_dict_set split: option.split)

section \<open>Structured filters survive the trip through the query string\<close>



lemma sample_filter_text:
  "json_dumps sample_filter =
     ''[{'' @ [CHR 0x22] @ ''project'' @ [CHR 0x22] @ '': {'' @ [CHR 0x22] @ ''operator'' @ [CHR 0x22]
       @ '': '' @ [CHR 0x22] @ ''='' @ [CHR 0x22] @ '', '' @ [CHR 0x22] @ ''values'' @ [CHR 0x22]
       @ '': ['' @ [CHR 0x22] @ ''5'' @ [CHR 0x22] @ '']}}]''"
  by (simp add: sample_filter_def dumps_str_def esc_char_def member_body_def)

section \<open>The request executor\<close>

lemma snd_make_request:
  "snd (make_request e url meth headers data params) =
     [(py_lower meth, url,
       build_request_args (py_lower meth)
         (dict_set (case py_or headers (Some []) of Some h \<Rightarrow> h | None \<Rightarrow> [])
            ''User-Agent'' (JStr USER_AGENT)) data params)]"
  by (simp add: make_request_def Let_def)

lemma fst_make_request:
  "fst (make_request e url meth headers data params) =
     (case upstream_outcome e url meth headers data params of
        Response status text \<Rightarrow>
          if is_success status then
            (case json_loads text of
               Some v \<Rightarrow> v
             | None \<Rightarrow> JObj [(''error'', JStr ''Request failed''),
                             (''details'', JStr (decode_error e text))])
          else JObj [(''error'', JStr ''HTTP error''), (''status'', JInt (int status)),
                     (''details'', JStr text)]
      | Failure msg \<Rightarrow> JObj [(''error'', JStr ''Request failed''), (''details'', JStr msg)])"
  by (simp add: upstream_outcome_def snd_make_request) (simp add: make_request_def Let_def)

lemma make_request_success:
  "upstream_outcome e url meth headers data params = Response status text \<Longrightarrow> is_success status
     \<Longrightarrow> json_loads text = Some v \<Longrightarrow> fst (make_request e url meth headers data params) = v"
  by (simp add: fst_make_request)




text \<open>
  Claim C6. A response whose status is outside 200 to 299 becomes the record with
  \<open>error = "HTTP error"\<close>, the status code as a number and the response text as it came.
  A call that ends in an exception instead of a response becomes the record with
  \<open>error = "Request failed"\<close> and the exception's text, and that record has no
  \<open>status\<close> key. The two records differ in their \<open>error\<close> field.
\<close>

theorem make_request_error_kinds:
  "(upstream_outcome e url meth headers data params = Response status text \<and> \<not> is_success status
      \<longrightarrow> fst (make_request e url meth headers data params)
            = JObj [(''error'', JStr ''HTTP error''), (''status'', JInt (int status)),
                    (''details'', JStr text)])
   \<and> (upstream_outcome e url meth headers data params = Failure msg
      \<longrightarrow> fst (make_request e url meth headers data params)
            = JObj [(''error'', JStr ''Request failed''), (''details'', JStr msg)])
   \<and> dict_get [(''error'', JStr ''Request failed''), (''details'', JStr msg)] ''status'' = None
   \<and> dict_get [(''error'', JStr ''HTTP error''), (''status'', JInt (int status)),
                (''details'', JStr text)] ''error''
       \<noteq> dict_get [(''error'', JStr ''Request failed''), (''details'', JStr msg)] ''error''"
  by (simp add: fst_make_request dict_get_def)

text \<open>A 404 with the body \<open>Not Found\<close>, and an upstream that refuses the connection.\<close>

theorem make_request_error_kinds_witness:
  "fst (make_request env_404 ''u'' ''GET'' None None None)
     = JObj [(''error'', JStr ''HTTP error''), (''status'', JInt 404), (''details'', JStr ''Not Found'')]
   \<and> fst (make_request env_down ''u'' ''GET'' None None None)
     = JObj [(''error'', JStr ''Request failed''),
             (''details'', JStr ''All connection attempts failed'')]"
proof -
  have a: "upstream_outcome env_404 ''u'' ''GET'' None None None = Response 404 ''Not Found''"
    by (simp add: upstream_outcome_def snd_make_request env_404_def sample_env_def)
  have b: "upstream_outcome env_down ''u'' ''GET'' None None None
             = Failure ''All connection attempts failed''"
    by (simp add: upstream_outcome_def snd_make_request env_down_def sample_env_def)
  have c: "\<not> is_success 404" by (simp add: is_success_def)
  show ?thesis
    using make_request_error_kinds [of env_404 "''u''" "''GET''" None None None 404 "''Not Found''" "[]"]
      make_request_error_kinds [of env_down "''u''" "''GET''" None None None 0 "[]"
        "''All connection attempts failed''"] a b c
    by simp
qed

text \<open>
  Claim C3. A response with a status from 200 to 299 gives the decoded body when the body
  decodes (\<open>make_request_success\<close>). An empty body does not decode: \<open>response.json()\<close>
  raises, the handler for every exception catches it, and the answer to a 204 with an
  empty body is the \<open>Request failed\<close> record, which is an error record.
\<close>

theorem empty_body_is_request_failed:
  "fst (make_request env_204 ''https://pm.example.org/api/v3/attachments/1'' ''DELETE''
          (Some (std_headers ''a2V5'')) None None)
     = JObj [(''error'', JStr ''Request failed''),
             (''details'', JStr ''Expecting value: line 1 column 1 (char 0)'')]"
  by (simp add: make_request_def Let_def env_204_def sample_env_def is_success_def
      json_loads_def skip_ws_def)

section \<open>What the operations come back with\<close>

lemma call_make_request_json:
  "call_make_request e ((''url'', u) # (''method'', m) # (''headers'', h) # (''json'', p) # rest)
     = Inl (unexpected_keyword ''json'')"
  by (simp add: call_make_request_def make_request_signature_def)

lemma call_make_request_params_json:
  "call_make_request e
     ((''url'', u) # (''method'', m) # (''headers'', h) # (''params'', q) # (''json'', p) # rest)
     = Inl (unexpected_keyword ''json'')"
  by (simp add: call_make_request_def make_request_signature_def)

lemma json_keyword_error_text:
  "json_keyword_error = ''make_request() got an unexpected keyword argument '' @ [CHR 0x27] @ ''json'' @ [CHR 0x27]"
  by (simp add: json_keyword_error_def unexpected_keyword_def)

lemma create_project_result:
  "create_project e name descr identifier public status_explanation
     = (Inr (''Error creating project: '' @ json_keyword_error), [])"
  by (simp add: create_project_def Let_def call_make_request_json try_request_def
      json_keyword_error_def)

lemma update_work_package_result:
  "update_work_package e wp lv subject descr pd t p s a sd dd et notify
     = (Inr (''Error updating work package '' @ show_int wp @ '': '' @ json_keyword_error), [])"
  by (simp add: update_work_package_def Let_def call_make_request_params_json try_request_def
      json_keyword_error_def)

lemma comment_work_package_result:
  "comment_work_package e wp txt notify
     = (Inr (''Error commenting on work package '' @ show_int wp @ '': '' @ json_keyword_error), [])"
  by (simp add: comment_work_package_def Let_def call_make_request_params_json try_request_def
      json_keyword_error_def)

lemma add_work_package_watcher_result:
  "add_work_package_watcher e wp uid
     = (Inr (''Error adding watcher to work package '' @ show_int wp @ '': '' @ json_keyword_error), [])"
  by (simp add: add_work_package_watcher_def Let_def call_make_request_json try_request_def
      json_keyword_error_def)

lemma create_work_package_result:
  "create_work_package e pid subject descr t p s a sd dd et notify
     = (Inr (''Error creating work package in project '' @ show_int pid @ '': '' @ json_keyword_error), [])"
  by (simp add: create_work_package_def Let_def call_make_request_params_json try_request_def
      json_keyword_error_def)

lemma update_project_result:
  "update_project e pid name descr identifier public active status_explanation
     = (Inr (if update_project_payload name descr identifier public active status_explanation = []
             then ''No update fields provided. Please specify at least one field to change.''
             else ''Error updating project '' @ show_int pid @ '': '' @ json_keyword_error), [])"
  by (simp add: update_project_def Let_def call_make_request_json try_request_def
      json_keyword_error_def)

lemma dict_set_not_Nil: "dict_set d k v \<noteq> []"
  by (cases d) auto

lemma when_given_dict_set_Nil:
  "when_given x (\<lambda>v. dict_set d k (g v)) d = [] \<longleftrightarrow> x = None \<and> d = []"
  by (cases x) (auto simp: when_given_def dict_set_not_Nil)

lemma update_project_payload_empty:
  "update_project_payload name descr identifier public active status_explanation = []
     \<longleftrightarrow> name = None \<and> descr = None \<and> identifier = None \<and> public = None \<and> active = None
         \<and> status_explanation = None"
  by (auto simp: update_project_payload_def Let_def when_given_dict_set_Nil when_given_def
      split: option.splits)

lemma update_activity_result:
  "update_activity e aid txt = (Inl (UnboundLocalError ''api_key''), [])"
  by (simp add: update_activity_def Let_def load_local_def)

lemma show_int_7: "show_int 7 = ''7''"
  by (simp add: show_int_def show_nat.simps digit_char_def char_of_eq_iff)

text \<open>
  Claim C2, as the code has it. \<open>create_project\<close>, \<open>update_work_package\<close>,
  \<open>comment_work_package\<close>, \<open>add_work_package_watcher\<close> and \<open>create_work_package\<close>
  pass their payload to \<open>make_request\<close> under the keyword \<open>json\<close>, which its
  signature does not have: on every input the call raises \<open>TypeError\<close> inside the
  \<open>try\<close> block, the operation returns its error text with that exception's message,
  and no network call is made. \<open>update_project\<close> does the same whenever one field at
  least is given; with no field it returns its fixed message before it reaches
  \<open>make_request\<close>, again without a network call.
\<close>

theorem mutations_fail_on_json_keyword:
  "create_project e cname cdescr cident cpublic cexpl
     = (Inr (''Error creating project: '' @ json_keyword_error), [])
   \<and> update_work_package e wp lv subject wdescr pd ty pr st asg sd dd et notify
     = (Inr (''Error updating work package '' @ show_int wp @ '': '' @ json_keyword_error), [])
   \<and> comment_work_package e wp txt notify
     = (Inr (''Error commenting on work package '' @ show_int wp @ '': '' @ json_keyword_error), [])
   \<and> add_work_package_watcher e wp uid
     = (Inr (''Error adding watcher to work package '' @ show_int wp @ '': '' @ json_keyword_error), [])
   \<and> create_work_package e pid subj wdescr ty pr st asg sd dd et notify
     = (Inr (''Error creating work package in project '' @ show_int pid @ '': ''
              @ json_keyword_error), [])
   \<and> update_project e pid uname udescr uident upublic uactive uexpl
     = (Inr (if uname = None \<and> udescr = None \<and> uident = None \<and> upublic = None \<and> uactive = None
                \<and> uexpl = None
             then ''No update fields provided. Please specify at least one field to change.''
             else ''Error updating project '' @ show_int pid @ '': '' @ json_keyword_error), [])"
  by (simp add: create_project_result update_work_package_result comment_work_package_result
      add_work_package_watcher_result create_work_package_result update_project_result
      update_project_payload_empty)

theorem mutations_fail_on_json_keyword_witness:
  "create_project env_ok ''Demo'' None None True None
     = (Inr (''Error creating project: '' @ json_keyword_error), [])
   \<and> update_project env_ok 7 (Some ''Renamed'') None None None None None
     = (Inr (''Error updating project 7: '' @ json_keyword_error), [])
   \<and> update_project env_ok 7 None None None None None None
     = (Inr ''No update fields provided. Please specify at least one field to change.'', [])"
  using mutations_fail_on_json_keyword [where e = env_ok and cname = "''Demo''" and cdescr = None
      and cident = None and cpublic = True and cexpl = None and pid = 7
      and uname = "Some ''Renamed''" and udescr = None and uident = None and upublic = None
      and uactive = None and uexpl = None]
    mutations_fail_on_json_keyword [where e = env_ok and pid = 7
      and uname = None and udescr = None and uident = None and upublic = None
      and uactive = None and uexpl = None]
  by (simp add: show_int_7)

text \<open>
  The claim as it was stated also covers \<open>update_activity\<close> and every input of
  \<open>update_project\<close>. \<open>update_activity\<close> returns no text at all, and
  \<open>update_project\<close> without a field returns a text that is not the \<open>TypeError\<close> one.
\<close>

theorem mutation_claim_counterexample:
  "(\<nexists>s. fst (update_activity env_ok 1 ''edited'') = Inr s)
   \<and> fst (update_project env_ok 7 None None None None None None)
       = Inr ''No update fields provided. Please specify at least one field to change.''
   \<and> fst (update_project env_ok 7 None None None None None None)
       \<noteq> Inr (''Error updating project 7: '' @ json_keyword_error)"
  by (simp add: update_activity_result update_project_result update_project_payload_empty
      json_keyword_error_text)

section \<open>Operations that raise\<close>

text \<open>
  Claim C4. An operation is to return a text on every input and never to raise.
  \<open>view_activity\<close> and \<open>run_api\<close> raise \<open>UnboundLocalError\<close> on every input,
  before their \<open>try\<close> block and before any network call: each reads its local variable
  \<open>api_key\<close> on the right-hand side of the variable's first assignment.
\<close>

theorem operations_raise_unbound_local:
  "view_activity e activity_id = (Inl (UnboundLocalError ''api_key''), [])
   \<and> run_api e query meth = (Inl (UnboundLocalError ''api_key''), [])"
  by (simp add: view_activity_def run_api_def Let_def load_local_def)

text \<open>\<open>list_projects\<close> returns the dictionary itself, not a text.\<close>

lemma list_projects_returns_dict: "fst (list_projects env_ok) = Inr (JObj [])"
  by (simp add: list_projects_def Let_def call_make_request_def make_request_signature_def
      kw_dict_def make_request_def env_ok_def sample_env_def is_success_def json_loads_def
      skip_ws_def is_ws_def)

text \<open>
  Claim C7. The lock version is to be echoed as \<open>lockVersion\<close> in the body that
  \<open>update_work_package\<close> and \<open>execute_custom_action\<close> send.
  \<open>execute_custom_action\<close> raises \<open>UnboundLocalError\<close> on every input, with the
  token supplied, before it builds its payload.
\<close>

theorem execute_custom_action_raises:
  "execute_custom_action e custom_action_id work_package_id lock_version
     = (Inl (UnboundLocalError ''api_key''), [])"
  by (simp add: execute_custom_action_def Let_def load_local_def)

text \<open>\<open>update_work_package\<close> puts the token into its payload unchanged, on every input.\<close>

lemma dict_get_Cons: "dict_get ((k, v) # d) k' = (if k' = k then Some v else dict_get d k')"
  by (simp add: dict_get_def)

lemma update_work_package_echoes_lock_version:
  "dict_get (update_work_package_payload lock_version subject descr percentage_done type_id
       priority_id status_id assignee_id start_date due_date estimated_time) ''lockVersion''
     = Some (JInt lock_version)"
  by (simp add: update_work_package_payload_def Let_def dict_get_when_given_other
      dict_get_dict_set dict_get_Cons del: dict_set.simps)

section \<open>Presence tests\<close>

text \<open>
  \<open>update_project\<close> tests \<open>is not None\<close>: each key of its payload is there exactly
  when its input was given, with the value given, whether that is \<open>False\<close> or the
  empty string.
\<close>

lemma dict_get_Nil: "dict_get [] k = None"
  by (simp add: dict_get_def)

lemma update_project_presence:
  "dict_get (update_project_payload name descr ident public active expl) ''name'' = map_option JStr name
   \<and> dict_get (update_project_payload name descr ident public active expl) ''identifier''
       = map_option JStr ident
   \<and> dict_get (update_project_payload name descr ident public active expl) ''public''
       = map_option JBool public
   \<and> dict_get (update_project_payload name descr ident public active expl) ''active''
       = map_option JBool active
   \<and> dict_get (update_project_payload name descr ident public active expl) ''description''
       = map_option (\<lambda>x. JObj [(''raw'', JStr x)]) descr
   \<and> dict_get (update_project_payload name descr ident public active expl) ''statusExplanation''
       = map_option (\<lambda>x. JObj [(''raw'', JStr x)]) expl"
  by (simp add: update_project_payload_def Let_def dict_get_when_given_other
      dict_get_when_given_same dict_get_Nil del: dict_set.simps split: option.split)

text \<open>
  Claim C1. An omitted optional input is to leave no key in the body, and an explicit
  \<open>0\<close> or \<open>false\<close> is to be in it. The body that \<open>create_project\<close> builds
  from the name alone has the key \<open>identifier\<close> with the value \<open>null\<close>; the body
  that \<open>create_work_package\<close> builds from \<open>type_id = 0\<close> has no \<open>_links\<close> at
  all, because the function tests \<open>if type_id:\<close>. The sibling
  \<open>update_work_package\<close> tests \<open>is not None\<close> and keeps an explicit \<open>0\<close>.
\<close>

theorem create_paths_test_truthiness:
  "create_project_payload ''Demo'' None None True None
     = [(''name'', JStr ''Demo''), (''identifier'', JNull), (''public'', JBool True),
        (''active'', JBool True), (''_type'', JStr ''Project'')]
   \<and> create_work_package_payload ''Fix'' None (Some 0) None None None None None None
     = [(''subject'', JStr ''Fix'')]
   \<and> dict_get (update_work_package_payload 3 None None (Some 0) None None None None None None None)
        ''percentageDone'' = Some (JInt 0)"
  by (simp add: create_project_payload_def create_work_package_payload_def
      update_work_package_payload_def Let_def when_truthy_str_def when_truthy_int_def
      when_given_def opt_str_def dict_get_def)

section \<open>\<open>list_work_packages\<close>\<close>






lemma default_status_filter_text:
  "json_dumps default_status_filter =
     ''{'' @ [CHR 0x22] @ ''status_id'' @ [CHR 0x22] @ '': {'' @ [CHR 0x22] @ ''operator''
       @ [CHR 0x22] @ '': '' @ [CHR 0x22] @ ''o'' @ [CHR 0x22] @ '', '' @ [CHR 0x22] @ ''values''
       @ [CHR 0x22] @ '': null}}''"
  by (simp add: default_status_filter_def dumps_str_def esc_char_def)

section \<open>The catalog lookup\<close>













end
